theory Spec2Isabelle
  imports Main
begin

section \<open>Text\<close>

text \<open>
  Python text is modelled as \<^typ>\<open>string\<close>: a list of characters, each standing for one code
  point below 256.  The two constants of the source that hold a code point above that range
  (the apostrophe in \<open>SCHEMA_PROMPT\<close> and the bus sign in the liveness message) spell it as
  its UTF-8 bytes; no property below looks inside them.
\<close>

text \<open>\<open>str.isspace\<close> on one code point: the white space of Python below 256.\<close>

definition isspace :: "char \<Rightarrow> bool" where
  "isspace c = ((of_char c :: nat) \<in> set [9, 10, 11, 12, 13, 28, 29, 30, 31, 32, 133, 160])"

text \<open>\<open>s.strip()\<close>: drops white space at both ends.\<close>

definition py_strip :: "string \<Rightarrow> string" where
  "py_strip s = rev (dropWhile isspace (rev (dropWhile isspace s)))"

text \<open>
  \<open>s.strip(chars)\<close>: the argument is a set of characters, and every leading and trailing
  character of \<open>s\<close> that belongs to it is dropped.
\<close>

definition py_strip_chars :: "string \<Rightarrow> string \<Rightarrow> string" where
  "py_strip_chars s chars =
     rev (dropWhile (\<lambda>c. c \<in> set chars) (rev (dropWhile (\<lambda>c. c \<in> set chars) s)))"

text \<open>\<open>sep.join(xs)\<close>.\<close>

fun py_join :: "string \<Rightarrow> string list \<Rightarrow> string" where
  "py_join sep [] = []"
| "py_join sep [x] = x"
| "py_join sep (x # y # ys) = x @ sep @ py_join sep (y # ys)"

section \<open>Memory\<close>

text \<open>
  \<open>chat_history = deque(maxlen=5)\<close>.  A turn is the pair \<open>(user_input, response_text)\<close>;
  the deque is the list of its turns, oldest first.  \<open>append\<close> adds on the right and, when the
  length then exceeds \<open>maxlen\<close>, drops one element on the left.
\<close>

type_synonym turn = "string \<times> string"

definition maxlen :: nat where
  "maxlen = 5"

definition deque_append :: "'a list \<Rightarrow> 'a \<Rightarrow> 'a list" where
  "deque_append d x = (let d' = d @ [x] in if length d' > maxlen then tl d' else d')"

text \<open>The f-string \<open>f"User: {u}\nBot: {b}"\<close> of one turn.\<close>

definition turn_text :: "turn \<Rightarrow> string" where
  "turn_text t = (case t of (u, b) \<Rightarrow> ''User: '' @ u @ ''\<newline>Bot: '' @ b)"

definition get_chat_context :: "turn list \<Rightarrow> string" where
  "get_chat_context chat_history = py_join ''\<newline>'' (map turn_text chat_history)"

section \<open>Prompt helpers\<close>

definition SCHEMA_PROMPT :: string where
  "SCHEMA_PROMPT = concat
    [''\<newline>'',
     ''You are a SQL assistant for a Punjab transport database.\<newline>'',
     ''Rules:\<newline>'',
     ''- Only use these tables and columns:\<newline>'',
     ''  users(user_id, name, age, mobile_no, email, region_of_commute, created_at)\<newline>'',
     ''  busstops(stop_id, stop_name, location, region)\<newline>'',
     ''  routes(route_id, route_name, start_stop_id, end_stop_id, distance_km)\<newline>'',
     ''  buses(bus_id, bus_number, capacity, current_location, route_id, status)\<newline>'',
     ''  drivers(driver_id, name, mobile_no, bus_id, location, shift_start, shift_end)\<newline>'',
     ''  tickets(ticket_id, user_id, bus_id, route_id, source_stop_id, destination_stop_id, fare, purchase_time)\<newline>'',
     ''  notifications(notification_id, user_id, type, message, sent_at)\<newline>'',
     ''  chatlogs(chat_id, user_id, message_text, response_text, created_at)\<newline>'',
     ''  routestops(id, route_id, stop_id, stop_order)\<newline>'',
     ''\<newline>'',
     ''- Do NOT use columns that don'' @ [CHR 0xE2, CHR 0x80, CHR 0x99] @ ''t exist.\<newline>'',
     ''- Always use LIKE instead of = when filtering stop_name or location.\<newline>'',
     ''- For bus availability queries, return bus_number, route_name, current_location, and status.\<newline>'',
     ''- If data is not found, return an empty result (do not invent).\<newline>'',
     ''- Always include LIMIT 3 to avoid large results.\<newline>'',
     ''\<newline>'',
     ''Examples:\<newline>'',
     ''\<newline>'',
     ''User: Next bus from ISBT Chandigarh to Ludhiana?\<newline>'',
     ''SQL:\<newline>'',
     ''SELECT b.bus_number, r.route_name, b.current_location, b.status\<newline>'',
     ''FROM routes r\<newline>'',
     ''JOIN buses b ON r.route_id = b.route_id\<newline>'',
     ''JOIN routestops rs1 ON r.route_id = rs1.route_id\<newline>'',
     ''JOIN busstops bs1 ON rs1.stop_id = bs1.stop_id\<newline>'',
     ''JOIN routestops rs2 ON r.route_id = rs2.route_id\<newline>'',
     ''JOIN busstops bs2 ON rs2.stop_id = bs2.stop_id\<newline>'',
     ''WHERE bs1.stop_name LIKE '' @ [CHR 0x27] @ ''%Chandigarh%'' @ [CHR 0x27] @ ''\<newline>'',
     ''  AND bs2.stop_name LIKE '' @ [CHR 0x27] @ ''%Ludhiana%'' @ [CHR 0x27] @ ''\<newline>'',
     ''  AND b.status = '' @ [CHR 0x27] @ ''Running'' @ [CHR 0x27] @ ''\<newline>'',
     ''LIMIT 3;\<newline>'',
     ''\<newline>'',
     ''User: Show all buses from Chandigarh\<newline>'',
     ''SQL:\<newline>'',
     ''SELECT b.bus_number, r.route_name, b.current_location, b.status\<newline>'',
     ''FROM buses b\<newline>'',
     ''JOIN routes r ON b.route_id = r.route_id\<newline>'',
     ''JOIN routestops rs ON r.route_id = rs.route_id\<newline>'',
     ''JOIN busstops bs ON rs.stop_id = bs.stop_id\<newline>'',
     ''WHERE bs.stop_name LIKE '' @ [CHR 0x27] @ ''%Chandigarh%'' @ [CHR 0x27] @ ''\<newline>'',
     ''LIMIT 3;\<newline>'']"

section \<open>Collaborators\<close>

text \<open>
  An exception is carried as its message, the text \<open>str(e)\<close>.  The exceptions of the model are
  those that derive from \<open>Exception\<close>, which is what the language-model client and the
  database driver raise.
\<close>

datatype exn = Exception string

text \<open>
  The value bound to \<open>results\<close>: the list that \<open>cursor.fetchall()\<close> returned, or the dictionary
  \<open>{"error": str(e)}\<close>.  The type of a row is left open.
\<close>

datatype 'r query_result = Rows "'r list" | ErrorDict string

text \<open>The parameter tuple of the chat-log insert: user id, message, reply, time stamp.\<close>

type_synonym chatlog_row = "int \<times> string \<times> string \<times> nat"

text \<open>
  What the language model, the database and the run time answer during one request:
  \<^item> \<open>generate_content\<close>: \<open>model.generate_content(prompt).text\<close>, or the exception raised;
  \<^item> \<open>execute_fetchall\<close>: \<open>cursor.execute(sql_query)\<close> followed by \<open>cursor.fetchall()\<close>;
  \<^item> \<open>execute_insert\<close>: \<open>cursor.execute(insert_chat, row)\<close>, which returns nothing or raises;
  \<^item> \<open>commit\<close>: \<open>db.commit()\<close>, likewise;
  \<^item> \<open>now\<close>: \<open>datetime.datetime.now()\<close>;
  \<^item> \<open>str_results\<close>: the text that the f-string field \<open>{raw_results}\<close> expands to.
\<close>

record 'r collab =
  generate_content :: "string \<Rightarrow> exn + string"
  execute_fetchall :: "string \<Rightarrow> exn + 'r list"
  execute_insert :: "chatlog_row \<Rightarrow> exn option"
  commit :: "exn option"
  now :: nat
  str_results :: "'r query_result \<Rightarrow> string"

section \<open>SQL generation and reply formatting\<close>

definition sql_prompt :: "turn list \<Rightarrow> string \<Rightarrow> string" where
  "sql_prompt chat_history user_input =
     SCHEMA_PROMPT @ ''\<newline>Conversation so far:\<newline>'' @ get_chat_context chat_history
       @ ''\<newline>\<newline>User: '' @ user_input @ ''\<newline>SQL:''"

definition generate_sql :: "'r collab \<Rightarrow> turn list \<Rightarrow> string \<Rightarrow> exn + string" where
  "generate_sql env chat_history user_input =
     (let context = get_chat_context chat_history in
      case generate_content env
             (SCHEMA_PROMPT @ ''\<newline>Conversation so far:\<newline>'' @ context
                @ ''\<newline>\<newline>User: '' @ user_input @ ''\<newline>SQL:'') of
        Inl e \<Rightarrow> Inl e
      | Inr response_text \<Rightarrow>
          Inr (py_strip_chars (py_strip_chars (py_strip response_text) ''```sql'') ''```''))"

definition format_response ::
  "'r collab \<Rightarrow> turn list \<Rightarrow> 'r query_result \<Rightarrow> string \<Rightarrow> exn + string" where
  "format_response env chat_history raw_results user_input =
     (let context = get_chat_context chat_history in
      case generate_content env
             (''Conversation so far:\<newline>'' @ context
                @ ''\<newline>\<newline>User just asked: '' @ user_input
                @ ''\<newline>Here are SQL query results:\<newline>'' @ str_results env raw_results
                @ ''\<newline>'' @ ''Format this as a clear SMS/WhatsApp style reply:'') of
        Inl e \<Rightarrow> Inl e
      | Inr response_text \<Rightarrow> Inr (py_strip response_text))"

section \<open>The application\<close>

text \<open>
  The process state: the deque, and the record of what the logging step has written through
  the cursor (an insert that returned, a commit that returned), oldest first.  The effect of
  the generated statement on the database is not tracked.
\<close>

datatype db_call = Inserted chatlog_row | Committed

record state =
  chat_history :: "turn list"
  db_log :: "db_call list"

definition initial_state :: state where
  "initial_state = \<lparr>chat_history = [], db_log = []\<rparr>"

text \<open>\<open>class ChatRequest\<close>: \<open>user_id: int = 1\<close>, \<open>message: str\<close>.\<close>

record chat_request =
  user_id :: int
  message :: string

text \<open>Building the request from a body in which \<open>user_id\<close> may be absent.\<close>

definition ChatRequest :: "int option \<Rightarrow> string \<Rightarrow> chat_request" where
  "ChatRequest uid msg = \<lparr>user_id = (case uid of None \<Rightarrow> 1 | Some u \<Rightarrow> u), message = msg\<rparr>"

text \<open>A returned dictionary: its items in insertion order.\<close>

datatype 'r json = Text string | Results "'r query_result"

type_synonym 'r response = "(string \<times> 'r json) list"

definition root :: "(string \<times> string) list" where
  "root = [(''message'',
            ''Punjab Bus Assistant API is running '' @ [CHR 0xF0, CHR 0x9F, CHR 0x9A, CHR 0x8D])]"

text \<open>The \<open>try\<close> block of \<open>chat_endpoint\<close>.\<close>

definition run_query :: "'r collab \<Rightarrow> string \<Rightarrow> 'r query_result" where
  "run_query env sql_query =
     (case execute_fetchall env sql_query of
        Inr rows \<Rightarrow> Rows rows
      | Inl (Exception m) \<Rightarrow> ErrorDict m)"

text \<open>The insert and the commit that close \<open>chat_endpoint\<close>; neither is inside a \<open>try\<close>.\<close>

definition save_chat :: "'r collab \<Rightarrow> chatlog_row \<Rightarrow> state \<Rightarrow> exn option \<times> state" where
  "save_chat env row st =
     (case execute_insert env row of
        Some e \<Rightarrow> (Some e, st)
      | None \<Rightarrow>
          (let st' = st\<lparr>db_log := db_log st @ [Inserted row]\<rparr> in
           case commit env of
             Some e \<Rightarrow> (Some e, st')
           | None \<Rightarrow> (None, st'\<lparr>db_log := db_log st' @ [Committed]\<rparr>)))"

definition chat_endpoint ::
  "'r collab \<Rightarrow> chat_request \<Rightarrow> state \<Rightarrow> (exn + 'r response) \<times> state" where
  "chat_endpoint env req st =
     (let user_input = message req; uid = user_id req in
      case generate_sql env (chat_history st) user_input of
        Inl e \<Rightarrow> (Inl e, st)
      | Inr sql_query \<Rightarrow>
          (let results = run_query env sql_query in
           case format_response env (chat_history st) results user_input of
             Inl e \<Rightarrow> (Inl e, st)
           | Inr response_text \<Rightarrow>
               (let st1 = st\<lparr>chat_history :=
                              deque_append (chat_history st) (user_input, response_text)\<rparr> in
                case save_chat env (uid, user_input, response_text, now env) st1 of
                  (Some e, st2) \<Rightarrow> (Inl e, st2)
                | (None, st2) \<Rightarrow>
                    (Inr [(''user_message'', Text user_input),
                          (''sql_query'', Text sql_query),
                          (''results'', Results results),
                          (''bot_response'', Text response_text)], st2))))"

text \<open>
  The routes.  The framework answers with status 200 and the returned dictionary, and with
  status 500 and no dictionary when the handler raises.
\<close>

datatype 'b http = Http (status: nat) (body: "'b option")

definition get_root :: "state \<Rightarrow> (string \<times> string) list http \<times> state" where
  "get_root st = (Http 200 (Some root), st)"

definition post_chat :: "'r collab \<Rightarrow> chat_request \<Rightarrow> state \<Rightarrow> 'r response http \<times> state" where
  "post_chat env req st =
     (case chat_endpoint env req st of
        (Inr resp, st') \<Rightarrow> (Http 200 (Some resp), st')
      | (Inl e, st') \<Rightarrow> (Http 500 None, st'))"

text \<open>A run of the process: \<open>/chat\<close> requests served one after the other.\<close>

fun serve :: "('r collab \<times> chat_request) list \<Rightarrow> state \<Rightarrow> state" where
  "serve [] st = st"
| "serve ((env, req) # rs) st = serve rs (snd (chat_endpoint env req st))"

text \<open>The deque after a sequence of appends, starting empty.\<close>

definition appended :: "turn list \<Rightarrow> turn list" where
  "appended ts = foldl deque_append [] ts"

text \<open>A logged call without the user id it carries.\<close>

fun drop_user :: "db_call \<Rightarrow> (string \<times> string \<times> nat) option" where
  "drop_user (Inserted (u, m, r, t)) = Some (m, r, t)"
| "drop_user Committed = None"

text \<open>
  Collaborators for worked examples.  The model answers \<open>sql_reply\<close> to a prompt whose last
  but one character is \<open>L\<close> (the SQL prompt ends in \<open>SQL:\<close>) and \<open>bot_reply\<close> to any other
  (the formatting prompt ends in \<open>reply:\<close>); the generated statement has the outcome
  \<open>rows\<close>, the insert and the commit the outcomes \<open>ins\<close> and \<open>com\<close>, whatever the arguments.
\<close>

definition example_collab ::
  "string \<Rightarrow> string \<Rightarrow> exn + unit list \<Rightarrow> exn option \<Rightarrow> exn option \<Rightarrow> unit collab" where
  "example_collab sql_reply bot_reply rows ins com =
     \<lparr>generate_content =
        (\<lambda>prompt. if last (butlast prompt) = CHR ''L'' then Inr sql_reply else Inr bot_reply),
      execute_fetchall = (\<lambda>sql_query. rows),
      execute_insert = (\<lambda>row. ins),
      commit = com,
      now = 0,
      str_results = (\<lambda>raw_results. [])\<rparr>"

section \<open>The deque and the transcript\<close>

lemma deque_append_drop:
  "length d \<le> maxlen \<Longrightarrow> deque_append d x = drop (Suc (length d) - maxlen) (d @ [x])"
proof (cases "length d = maxlen")
  case True
  then have "deque_append d x = tl (d @ [x])"
    by (simp add: deque_append_def)
  also have "\<dots> = drop 1 (d @ [x])"
    by (cases d) simp_all
  finally show ?thesis using True by simp
next
  case False
  assume "length d \<le> maxlen"
  with False show ?thesis by (simp add: deque_append_def)
qed

lemma drop_snoc_window:
  assumes "0 < m"
  shows "drop (Suc (length (drop (length xs - m) xs)) - m) (drop (length xs - m) xs @ [t])
         = drop (Suc (length xs) - m) (xs @ [t])"
proof (cases "length xs < m")
  case True
  then show ?thesis by simp
next
  case False
  then have "length (drop (length xs - m) xs) = m" by simp
  then have "drop (Suc (length (drop (length xs - m) xs)) - m) (drop (length xs - m) xs @ [t])
             = drop 1 (drop (length xs - m) xs @ [t])" by simp
  also have "\<dots> = drop (Suc (length xs - m)) xs @ [t]"
    using False assms by simp
  also have "\<dots> = drop (Suc (length xs) - m) (xs @ [t])"
    using False assms by (simp add: Suc_diff_le)
  finally show ?thesis .
qed

lemma foldl_deque_append:
  "length d \<le> maxlen \<Longrightarrow>
   foldl deque_append d ts = drop (length (d @ ts) - maxlen) (d @ ts)"
proof (induction ts rule: rev_induct)
  case Nil
  then show ?case by simp
next
  case (snoc t ts)
  let ?xs = "d @ ts"
  let ?d = "foldl deque_append d ts"
  have eq: "?d = drop (length ?xs - maxlen) ?xs"
    using snoc by simp
  then have len: "length ?d \<le> maxlen"
    by simp
  have "foldl deque_append d (ts @ [t]) = deque_append ?d t" by simp
  also have "\<dots> = drop (Suc (length ?d) - maxlen) (?d @ [t])"
    using len by (rule deque_append_drop)
  also have "\<dots> = drop (Suc (length ?xs) - maxlen) (?xs @ [t])"
    unfolding eq by (rule drop_snoc_window) (simp add: maxlen_def)
  finally show ?case by simp
qed

lemma appended_last: "appended ts = drop (length ts - maxlen) ts"
  using foldl_deque_append [of "[]" ts] by (simp add: appended_def)

lemma length_deque_append: "length (deque_append d x) \<le> max (length d) maxlen"
  by (auto simp: deque_append_def Let_def)

lemma save_chat_history: "chat_history (snd (save_chat env row st)) = chat_history st"
  by (simp add: save_chat_def Let_def split: option.splits)

lemma chat_endpoint_history:
  "chat_history (snd (chat_endpoint env req st)) = chat_history st \<or>
   (\<exists>r. chat_history (snd (chat_endpoint env req st))
          = deque_append (chat_history st) (message req, r))"
proof (cases "generate_sql env (chat_history st) (message req)")
  case (Inl e)
  then show ?thesis by (simp add: chat_endpoint_def)
next
  case sql: (Inr sql_query)
  show ?thesis
  proof (cases "format_response env (chat_history st) (run_query env sql_query) (message req)")
    case (Inl e)
    with sql show ?thesis by (simp add: chat_endpoint_def)
  next
    case (Inr r)
    let ?st1 = "st\<lparr>chat_history := deque_append (chat_history st) (message req, r)\<rparr>"
    let ?row = "(user_id req, message req, r, now env)"
    have "snd (chat_endpoint env req st) = snd (save_chat env ?row ?st1)"
      using sql Inr by (simp add: chat_endpoint_def Let_def split: prod.splits option.splits)
    then have "chat_history (snd (chat_endpoint env req st))
               = deque_append (chat_history st) (message req, r)"
      by (simp add: save_chat_history)
    then show ?thesis by blast
  qed
qed

lemma chat_endpoint_bounded:
  assumes "length (chat_history st) \<le> maxlen"
  shows "length (chat_history (snd (chat_endpoint env req st))) \<le> maxlen"
  using chat_endpoint_history [of env req st] length_deque_append [of "chat_history st"] assms
  by (auto simp: max_def split: if_splits) 

lemma serve_bounded:
  "length (chat_history st) \<le> maxlen \<Longrightarrow> length (chat_history (serve rs st)) \<le> maxlen"
  by (induction rs st rule: serve.induct) (simp_all add: chat_endpoint_bounded)

text \<open>
  Claim C4.  Whatever \<open>/chat\<close> requests the process has served since it started, and
  whatever the collaborators answered (requests that raised included), the deque holds at
  most five turns.
\<close>

theorem context_window_bounded:
  "length (chat_history (serve rs initial_state)) \<le> 5"
  using serve_bounded [of initial_state rs] by (simp add: initial_state_def maxlen_def)

text \<open>
  Claim C3.  After at most five appends to the empty deque the transcript is the turns in
  arrival order, each rendered \<open>User: <input>\<close>, newline, \<open>Bot: <output>\<close>, joined by
  newlines; after more than five appends the deque holds the five most recent turns, the
  oldest having been dropped first, and the transcript renders those.
\<close>

theorem transcript_of_appended:
  "(length ts \<le> 5 \<longrightarrow>
      get_chat_context (appended ts)
        = py_join ''\<newline>'' (map (\<lambda>(u, b). ''User: '' @ u @ ''\<newline>Bot: '' @ b) ts)) \<and>
   (5 < length ts \<longrightarrow>
      appended ts = drop (length ts - 5) ts \<and>
      get_chat_context (appended ts)
        = py_join ''\<newline>''
            (map (\<lambda>(u, b). ''User: '' @ u @ ''\<newline>Bot: '' @ b) (drop (length ts - 5) ts)))"
proof -
  have "turn_text = (\<lambda>(u, b). ''User: '' @ u @ ''\<newline>Bot: '' @ b)"
    by (rule ext) (simp add: turn_text_def)
  then show ?thesis
    by (simp add: get_chat_context_def appended_last maxlen_def)
qed

theorem transcript_of_appended_witness:
  "get_chat_context (appended [(''hi'', ''hello''), (''next bus?'', ''at 5'')])
     = ''User: hi\<newline>Bot: hello\<newline>User: next bus?\<newline>Bot: at 5'' \<and>
   appended [(''1'', ''a''), (''2'', ''b''), (''3'', ''c''), (''4'', ''d''), (''5'', ''e''), (''6'', ''f'')]
     = [(''2'', ''b''), (''3'', ''c''), (''4'', ''d''), (''5'', ''e''), (''6'', ''f'')] \<and>
   get_chat_context
       (appended [(''1'', ''a''), (''2'', ''b''), (''3'', ''c''), (''4'', ''d''), (''5'', ''e''), (''6'', ''f'')])
     = ''User: 2\<newline>Bot: b\<newline>User: 3\<newline>Bot: c\<newline>User: 4\<newline>Bot: d\<newline>User: 5\<newline>Bot: e\<newline>User: 6\<newline>Bot: f''"
proof -
  let ?six = "[(''1'', ''a''), (''2'', ''b''), (''3'', ''c''), (''4'', ''d''), (''5'', ''e''), (''6'', ''f'')]"
  have two: "get_chat_context (appended [(''hi'', ''hello''), (''next bus?'', ''at 5'')])
               = ''User: hi\<newline>Bot: hello\<newline>User: next bus?\<newline>Bot: at 5''"
    using transcript_of_appended [of "[(''hi'', ''hello''), (''next bus?'', ''at 5'')]"] by simp
  have six: "appended ?six = drop (length ?six - 5) ?six \<and>
             get_chat_context (appended ?six)
               = py_join ''\<newline>''
                   (map (\<lambda>(u, b). ''User: '' @ u @ ''\<newline>Bot: '' @ b) (drop (length ?six - 5) ?six))"
    using transcript_of_appended [of ?six] by fastforce
  from six have "appended ?six = [(''2'', ''b''), (''3'', ''c''), (''4'', ''d''), (''5'', ''e''), (''6'', ''f'')]"
    by simp
  moreover from six [THEN conjunct2] have "get_chat_context (appended ?six)
      = ''User: 2\<newline>Bot: b\<newline>User: 3\<newline>Bot: c\<newline>User: 4\<newline>Bot: d\<newline>User: 5\<newline>Bot: e\<newline>User: 6\<newline>Bot: f''"
    by simp
  ultimately show ?thesis using two by blast
qed

lemma py_join_snoc:
  "py_join sep (xs @ [x]) = (if xs = [] then x else py_join sep xs @ sep @ x)"
  by (induction sep xs rule: py_join.induct) auto

lemma deque_append_snoc: "\<exists>pre. deque_append d x = pre @ [x]"
proof (cases "length (d @ [x]) > maxlen")
  case True
  then have "d \<noteq> []" by (auto simp: maxlen_def)
  then have "tl (d @ [x]) = tl d @ [x]" by simp
  with True show ?thesis by (simp add: deque_append_def)
next
  case False
  then show ?thesis by (simp add: deque_append_def)
qed

lemma get_chat_context_snoc:
  "get_chat_context (ts @ [t])
     = (if ts = [] then [] else get_chat_context ts @ ''\<newline>'') @ turn_text t"
  unfolding get_chat_context_def map_append list.map py_join_snoc
  by (cases ts) simp_all


lemma context_ends_with_last_turn:
  "\<exists>pre. get_chat_context (deque_append d (u, b)) = pre @ ''User: '' @ u @ ''\<newline>Bot: '' @ b"
proof -
  obtain ts where ts: "deque_append d (u, b) = ts @ [(u, b)]"
    using deque_append_snoc [of d "(u, b)"] by (elim exE)
  have tt: "turn_text (u, b) = ''User: '' @ u @ ''\<newline>Bot: '' @ b"
    by (simp add: turn_text_def)
  have eq: "get_chat_context (deque_append d (u, b))
        = (if ts = [] then [] else get_chat_context ts @ ''\<newline>'') @ ''User: '' @ u @ ''\<newline>Bot: '' @ b"
    unfolding ts get_chat_context_snoc tt by (rule refl)
  show ?thesis
    by (rule exI [of _ "if ts = [] then [] else get_chat_context ts @ ''\<newline>''"]) (rule eq)
qed

section \<open>The request handler\<close>

lemma generate_sql_prompt:
  "generate_sql env h user_input =
     (case generate_content env (sql_prompt h user_input) of
        Inl e \<Rightarrow> Inl e
      | Inr response_text \<Rightarrow>
          Inr (py_strip_chars (py_strip_chars (py_strip response_text) ''```sql'') ''```''))"
  by (simp only: generate_sql_def sql_prompt_def Let_def)

lemma save_chat_insert_raises:
  "execute_insert env row = Some e \<Longrightarrow> save_chat env row st = (Some e, st)"
  by (simp add: save_chat_def)

lemma save_chat_commit_raises:
  "execute_insert env row = None \<Longrightarrow> commit env = Some e \<Longrightarrow>
   save_chat env row st = (Some e, st\<lparr>db_log := db_log st @ [Inserted row]\<rparr>)"
  by (simp add: save_chat_def)

lemma save_chat_returns:
  "execute_insert env row = None \<Longrightarrow> commit env = None \<Longrightarrow>
   save_chat env row st = (None, st\<lparr>db_log := db_log st @ [Inserted row, Committed]\<rparr>)"
  by (simp add: save_chat_def)

lemma save_chat_None:
  "save_chat env row st = (None, st') \<Longrightarrow>
   execute_insert env row = None \<and> commit env = None \<and>
   st' = st\<lparr>db_log := db_log st @ [Inserted row, Committed]\<rparr>"
  by (auto simp: save_chat_def Let_def split: option.splits)

lemma chat_endpoint_formatted:
  assumes "generate_sql env (chat_history st) (message req) = Inr sql_query"
    and "format_response env (chat_history st) (run_query env sql_query) (message req)
         = Inr response_text"
  shows "chat_endpoint env req st =
     (case save_chat env (user_id req, message req, response_text, now env)
             (st\<lparr>chat_history := deque_append (chat_history st) (message req, response_text)\<rparr>) of
        (Some e, st2) \<Rightarrow> (Inl e, st2)
      | (None, st2) \<Rightarrow>
          (Inr [(''user_message'', Text (message req)),
                (''sql_query'', Text sql_query),
                (''results'', Results (run_query env sql_query)),
                (''bot_response'', Text response_text)], st2))"
  using assms by (simp add: chat_endpoint_def Let_def)


lemma chat_endpoint_Inr:
  assumes "fst (chat_endpoint env req st) = Inr resp"
  shows "\<exists>sql_query response_text.
     generate_sql env (chat_history st) (message req) = Inr sql_query \<and>
     format_response env (chat_history st) (run_query env sql_query) (message req)
       = Inr response_text \<and>
     execute_insert env (user_id req, message req, response_text, now env) = None \<and>
     commit env = None \<and>
     resp = [(''user_message'', Text (message req)),
             (''sql_query'', Text sql_query),
             (''results'', Results (run_query env sql_query)),
             (''bot_response'', Text response_text)] \<and>
     snd (chat_endpoint env req st) =
       st\<lparr>chat_history := deque_append (chat_history st) (message req, response_text),
          db_log := db_log st @ [Inserted (user_id req, message req, response_text, now env),
                                 Committed]\<rparr>"
proof (cases "generate_sql env (chat_history st) (message req)")
  case (Inl e)
  with assms show ?thesis by (simp add: chat_endpoint_def)
next
  case sql: (Inr sql_query)
  show ?thesis
  proof (cases "format_response env (chat_history st) (run_query env sql_query) (message req)")
    case (Inl e)
    with assms sql show ?thesis by (simp add: chat_endpoint_def Let_def)
  next
    case (Inr response_text)
    let ?row = "(user_id req, message req, response_text, now env)"
    let ?st1 = "st\<lparr>chat_history := deque_append (chat_history st) (message req, response_text)\<rparr>"
    note eq = chat_endpoint_formatted [OF sql Inr]
    obtain r st2 where sc: "save_chat env ?row ?st1 = (r, st2)"
      by (cases "save_chat env ?row ?st1")
    with assms eq have r: "r = None"
      by (cases r) simp_all
    note ok = save_chat_None [OF sc [unfolded r]]
    have "resp = [(''user_message'', Text (message req)),
             (''sql_query'', Text sql_query),
             (''results'', Results (run_query env sql_query)),
             (''bot_response'', Text response_text)]"
      using assms eq sc r by simp
    moreover have "snd (chat_endpoint env req st) =
       st\<lparr>chat_history := deque_append (chat_history st) (message req, response_text),
          db_log := db_log st @ [Inserted ?row, Committed]\<rparr>"
      using eq sc r ok by simp
    ultimately show ?thesis
      using sql Inr ok by (intro exI [of _ sql_query] exI [of _ response_text]) simp
  qed
qed

subsection \<open>The example collaborators\<close>

lemma last_butlast_snoc: "last (butlast (xs @ [a, b])) = a"
  by (simp add: butlast_append)

lemma sql_prompt_tail: "last (butlast (sql_prompt h user_input)) = CHR ''L''"
proof -
  have "sql_prompt h user_input
        = (SCHEMA_PROMPT @ ''\<newline>Conversation so far:\<newline>'' @ get_chat_context h
             @ ''\<newline>\<newline>User: '' @ user_input @ ''\<newline>SQ'') @ [CHR ''L'', CHR '':'']"
    by (simp add: sql_prompt_def)
  then show ?thesis by (simp only: last_butlast_snoc)
qed

lemma example_sql_reply:
  "generate_sql (example_collab sql_reply bot_reply rows ins com) h user_input
     = Inr (py_strip_chars (py_strip_chars (py_strip sql_reply) ''```sql'') ''```'')"
proof -
  have "generate_content (example_collab sql_reply bot_reply rows ins com)
          (sql_prompt h user_input) = Inr sql_reply"
    by (simp add: example_collab_def sql_prompt_tail)
  then show ?thesis by (simp only: generate_sql_prompt sum.case)
qed

lemma example_bot_reply:
  "format_response (example_collab sql_reply bot_reply rows ins com) h raw_results user_input
     = Inr (py_strip bot_reply)"
proof -
  let ?env = "example_collab sql_reply bot_reply rows ins com"
  let ?prompt = "''Conversation so far:\<newline>'' @ get_chat_context h
                @ ''\<newline>\<newline>User just asked: '' @ user_input
                @ ''\<newline>Here are SQL query results:\<newline>'' @ str_results ?env raw_results
                @ ''\<newline>'' @ ''Format this as a clear SMS/WhatsApp style reply:''"
  have "?prompt = (''Conversation so far:\<newline>'' @ get_chat_context h
                @ ''\<newline>\<newline>User just asked: '' @ user_input
                @ ''\<newline>Here are SQL query results:\<newline>'' @ str_results ?env raw_results
                @ ''\<newline>'' @ ''Format this as a clear SMS/WhatsApp style repl'')
                @ [CHR ''y'', CHR '':'']"
    by simp
  then have "last (butlast ?prompt) = CHR ''y''"
    by (simp only: last_butlast_snoc)
  then have "generate_content ?env ?prompt = Inr bot_reply"
    by (simp add: example_collab_def)
  then show ?thesis
    by (simp only: format_response_def Let_def sum.case)
qed

subsection \<open>SQL extraction\<close>

text \<open>
  Where the trimmed answer neither starts nor ends with a back quote or one of the letters
  \<open>s\<close>, \<open>q\<close>, \<open>l\<close>, the two character-set strips change nothing and \<open>generate_sql\<close> returns
  the trimmed answer.
\<close>

lemma py_strip_chars_unchanged:
  assumes "s \<noteq> []" and "hd s \<notin> set chars" and "last s \<notin> set chars"
  shows "py_strip_chars s chars = s"
proof -
  have "dropWhile (\<lambda>c. c \<in> set chars) s = s"
    using assms by (cases s) simp_all
  moreover have "dropWhile (\<lambda>c. c \<in> set chars) (rev s) = rev s"
    using assms by (cases "rev s") (simp_all add: last_rev [symmetric] hd_rev)
  ultimately show ?thesis by (simp add: py_strip_chars_def)
qed

lemma generate_sql_unchanged:
  assumes "generate_content env (sql_prompt h user_input) = Inr response_text"
    and "py_strip response_text \<noteq> []"
    and "hd (py_strip response_text) \<notin> set ''`sql''"
    and "last (py_strip response_text) \<notin> set ''`sql''"
  shows "generate_sql env h user_input = Inr (py_strip response_text)"
proof -
  let ?s = "py_strip response_text"
  have "py_strip_chars ?s ''```sql'' = ?s"
    using assms(2-4) by (intro py_strip_chars_unchanged) simp_all
  moreover have "py_strip_chars ?s ''```'' = ?s"
    using assms(2-4) by (intro py_strip_chars_unchanged) simp_all
  ultimately show ?thesis
    using assms(1) by (simp only: generate_sql_prompt sum.case)
qed

text \<open>
  Claim C1.  \<open>generate_sql\<close> is meant to return the SQL inside a \<open>```sql\<close> fence without the
  fence and without surrounding white space, and an unfenced answer trimmed and otherwise
  unchanged.  The code calls \<open>strip("```sql")\<close> and \<open>strip("```")\<close>, which remove characters of
  a set, after the only white-space \<open>strip()\<close>.  For the fenced answer below the newlines
  inside the fence are left in place, and for the unfenced one the final \<open>s\<close> of the table
  name is removed.
\<close>

theorem generate_sql_strips_characters:
  "generate_sql
     (example_collab ''```sql\<newline>SELECT 1;\<newline>```'' ''ok'' (Inr []) None None) [] ''one''
     = Inr ''\<newline>SELECT 1;\<newline>'' \<and>
   generate_sql
     (example_collab ''SELECT * FROM routes'' ''ok'' (Inr []) None None) [] ''all routes''
     = Inr ''SELECT * FROM route''"
  by (simp add: example_sql_reply py_strip_def py_strip_chars_def isspace_def)

subsection \<open>Outcomes of a request\<close>

text \<open>
  Claim C2.  When executing the generated SQL raises, the handler binds \<open>results\<close> to the
  error dictionary holding the message, and goes on exactly as after any query: the
  formatting step runs on that dictionary, and only an error of the formatting or of the
  logging step can still fail the request; otherwise the response carries the dictionary.
\<close>

theorem query_error_fed_forward:
  assumes gen: "generate_sql env (chat_history st) (message req) = Inr sql_query"
    and err: "execute_fetchall env sql_query = Inl (Exception m)"
  shows "run_query env sql_query = ErrorDict m \<and>
         chat_endpoint env req st =
           (case format_response env (chat_history st) (ErrorDict m) (message req) of
              Inl e \<Rightarrow> (Inl e, st)
            | Inr response_text \<Rightarrow>
                (case save_chat env (user_id req, message req, response_text, now env)
                        (st\<lparr>chat_history :=
                              deque_append (chat_history st) (message req, response_text)\<rparr>) of
                   (Some e, st2) \<Rightarrow> (Inl e, st2)
                 | (None, st2) \<Rightarrow>
                     (Inr [(''user_message'', Text (message req)),
                           (''sql_query'', Text sql_query),
                           (''results'', Results (ErrorDict m)),
                           (''bot_response'', Text response_text)], st2)))"
proof -
  have rq: "run_query env sql_query = ErrorDict m"
    using err by (simp add: run_query_def)
  show ?thesis
    using gen rq by (simp add: chat_endpoint_def Let_def split: sum.splits)
qed


lemma post_chat_Inr:
  "fst (chat_endpoint env req st) = Inr resp \<Longrightarrow> fst (post_chat env req st) = Http 200 (Some resp)"
  by (cases "chat_endpoint env req st") (simp add: post_chat_def)

lemma post_chat_Inl:
  "fst (chat_endpoint env req st) = Inl e \<Longrightarrow> fst (post_chat env req st) = Http 500 None"
  by (cases "chat_endpoint env req st") (simp add: post_chat_def)

text \<open>
  Claim C5.  A \<open>/chat\<close> invocation that returns gives a dictionary with exactly the keys
  \<open>user_message\<close>, \<open>sql_query\<close>, \<open>results\<close>, \<open>bot_response\<close>, answered with status 200; and
  \<open>user_id\<close> is 1 when the body has none.
\<close>

theorem chat_response_fields:
  assumes "fst (chat_endpoint env req st) = Inr resp"
  shows "map fst resp = [''user_message'', ''sql_query'', ''results'', ''bot_response''] \<and>
         map_of resp ''user_message'' = Some (Text (message req)) \<and>
         fst (post_chat env req st) = Http 200 (Some resp) \<and>
         user_id (ChatRequest None msg) = 1 \<and>
         user_id (ChatRequest (Some u) msg) = u"
proof -
  obtain sql_query response_text where
    resp: "resp = [(''user_message'', Text (message req)),
                   (''sql_query'', Text sql_query),
                   (''results'', Results (run_query env sql_query)),
                   (''bot_response'', Text response_text)]"
    using chat_endpoint_Inr [OF assms] by (elim exE conjE)
  have "fst (post_chat env req st) = Http 200 (Some resp)"
    using assms by (rule post_chat_Inr)
  moreover have "map fst resp = [''user_message'', ''sql_query'', ''results'', ''bot_response'']"
    unfolding resp by simp
  moreover have "map_of resp ''user_message'' = Some (Text (message req))"
    unfolding resp by simp
  ultimately show ?thesis by (simp add: ChatRequest_def)
qed

text \<open>
  Claim C8.  \<open>GET /\<close> answers with status 200 and the same one-field dictionary whatever
  \<open>/chat\<close> requests were served before and whatever state they left; it changes no state.
\<close>

theorem root_is_constant:
  "fst (get_root (serve rs st)) = Http 200 (Some root) \<and>
   fst (get_root (serve rs st)) = fst (get_root st') \<and>
   snd (get_root st) = st \<and>
   map fst root = [''message'']"
  by (simp add: get_root_def root_def)


lemma chat_endpoint_logging_raises:
  assumes gen: "generate_sql env (chat_history st) (message req) = Inr sql_query"
    and fmt: "format_response env (chat_history st) (run_query env sql_query) (message req)
              = Inr response_text"
    and fail: "execute_insert env (user_id req, message req, response_text, now env) = Some e \<or>
               (execute_insert env (user_id req, message req, response_text, now env) = None \<and>
                commit env = Some e)"
  shows "chat_endpoint env req st =
           (Inl e,
            st\<lparr>chat_history := deque_append (chat_history st) (message req, response_text),
               db_log := db_log st @
                 (case execute_insert env (user_id req, message req, response_text, now env) of
                    None \<Rightarrow> [Inserted (user_id req, message req, response_text, now env)]
                  | Some x \<Rightarrow> [])\<rparr>)"
proof -
  let ?row = "(user_id req, message req, response_text, now env)"
  let ?st1 = "st\<lparr>chat_history := deque_append (chat_history st) (message req, response_text)\<rparr>"
  note eq = chat_endpoint_formatted [OF gen fmt]
  from fail show ?thesis
  proof
    assume ins: "execute_insert env ?row = Some e"
    then have "save_chat env ?row ?st1 = (Some e, ?st1)"
      by (rule save_chat_insert_raises)
    with eq ins show ?thesis by simp
  next
    assume "execute_insert env ?row = None \<and> commit env = Some e"
    then have ins: "execute_insert env ?row = None" and com: "commit env = Some e"
      by simp_all
    have "save_chat env ?row ?st1 = (Some e, ?st1\<lparr>db_log := db_log ?st1 @ [Inserted ?row]\<rparr>)"
      using ins com by (rule save_chat_commit_raises)
    with eq ins show ?thesis by simp
  qed
qed

text \<open>
  Claim C7.  When the chat-log insert or the commit raises, the exception leaves the handler:
  the request fails (status 500, no dictionary, so the computed reply does not reach the
  caller), and the logging step undoes nothing: the state is the one it found, with the
  turn appended, plus the insert if that had returned.
\<close>

theorem logging_error_propagates:
  assumes "generate_sql env (chat_history st) (message req) = Inr sql_query"
    and "format_response env (chat_history st) (run_query env sql_query) (message req)
         = Inr response_text"
    and "execute_insert env (user_id req, message req, response_text, now env) = Some e \<or>
         (execute_insert env (user_id req, message req, response_text, now env) = None \<and>
          commit env = Some e)"
  shows "fst (chat_endpoint env req st) = Inl e \<and>
         fst (post_chat env req st) = Http 500 None \<and>
         snd (chat_endpoint env req st) =
           st\<lparr>chat_history := deque_append (chat_history st) (message req, response_text),
              db_log := db_log st @
                (case execute_insert env (user_id req, message req, response_text, now env) of
                   None \<Rightarrow> [Inserted (user_id req, message req, response_text, now env)]
                 | Some x \<Rightarrow> [])\<rparr>"
proof -
  note eq = chat_endpoint_logging_raises [OF assms]
  have "fst (chat_endpoint env req st) = Inl e"
    by (simp only: eq fst_conv)
  moreover from this have "fst (post_chat env req st) = Http 500 None"
    by (rule post_chat_Inl)
  moreover have "snd (chat_endpoint env req st) =
           st\<lparr>chat_history := deque_append (chat_history st) (message req, response_text),
              db_log := db_log st @
                (case execute_insert env (user_id req, message req, response_text, now env) of
                   None \<Rightarrow> [Inserted (user_id req, message req, response_text, now env)]
                 | Some x \<Rightarrow> [])\<rparr>"
    by (simp only: eq snd_conv)
  ultimately show ?thesis by (intro conjI)
qed

lemma prompt_after_turn:
  assumes "chat_history st1 = deque_append h (u, b)"
  shows "\<exists>pre. generate_sql env2 (chat_history st1) next_input =
     (case generate_content env2
             (SCHEMA_PROMPT @ ''\<newline>Conversation so far:\<newline>'' @ pre
                @ ''User: '' @ u @ ''\<newline>Bot: '' @ b
                @ ''\<newline>\<newline>User: '' @ next_input @ ''\<newline>SQL:'') of
        Inl e \<Rightarrow> Inl e
      | Inr response_text \<Rightarrow>
          Inr (py_strip_chars (py_strip_chars (py_strip response_text) ''```sql'') ''```''))"
proof -
  obtain pre where ctx:
    "get_chat_context (deque_append h (u, b)) = pre @ ''User: '' @ u @ ''\<newline>Bot: '' @ b"
    using context_ends_with_last_turn [of h u b] by (elim exE)
  have "sql_prompt (chat_history st1) next_input =
          SCHEMA_PROMPT @ ''\<newline>Conversation so far:\<newline>'' @ pre
            @ ''User: '' @ u @ ''\<newline>Bot: '' @ b
            @ ''\<newline>\<newline>User: '' @ next_input @ ''\<newline>SQL:''"
    by (simp only: sql_prompt_def assms ctx append_assoc)
  then have "generate_sql env2 (chat_history st1) next_input =
     (case generate_content env2
             (SCHEMA_PROMPT @ ''\<newline>Conversation so far:\<newline>'' @ pre
                @ ''User: '' @ u @ ''\<newline>Bot: '' @ b
                @ ''\<newline>\<newline>User: '' @ next_input @ ''\<newline>SQL:'') of
        Inl e \<Rightarrow> Inl e
      | Inr response_text \<Rightarrow>
          Inr (py_strip_chars (py_strip_chars (py_strip response_text) ''```sql'') ''```''))"
    by (simp only: generate_sql_prompt)
  then show ?thesis by (rule exI [of _ pre])
qed


text \<open>
  Claim C6.  After a first request has returned, the prompt that \<open>generate_sql\<close> sends to the
  model for the next request holds, at the end of its transcript section, the first
  request's message and the reply returned to its caller, in the \<open>User:\<close>/\<open>Bot:\<close> template.
\<close>

theorem second_prompt_contains_first_turn:
  assumes "chat_endpoint env1 req1 st = (Inr resp, st1)"
  shows "\<exists>reply pre.
     map_of resp ''bot_response'' = Some (Text reply) \<and>
     generate_sql env2 (chat_history st1) (message req2) =
       (case generate_content env2
               (SCHEMA_PROMPT @ ''\<newline>Conversation so far:\<newline>'' @ pre
                  @ ''User: '' @ message req1 @ ''\<newline>Bot: '' @ reply
                  @ ''\<newline>\<newline>User: '' @ message req2 @ ''\<newline>SQL:'') of
          Inl e \<Rightarrow> Inl e
        | Inr response_text \<Rightarrow>
            Inr (py_strip_chars (py_strip_chars (py_strip response_text) ''```sql'') ''```''))"
proof -
  from assms have ok: "fst (chat_endpoint env1 req1 st) = Inr resp"
    and st1: "snd (chat_endpoint env1 req1 st) = st1"
    by simp_all
  obtain sql_query reply where
    resp: "resp = [(''user_message'', Text (message req1)),
                   (''sql_query'', Text sql_query),
                   (''results'', Results (run_query env1 sql_query)),
                   (''bot_response'', Text reply)]"
    and st': "snd (chat_endpoint env1 req1 st) =
       st\<lparr>chat_history := deque_append (chat_history st) (message req1, reply),
          db_log := db_log st @ [Inserted (user_id req1, message req1, reply, now env1),
                                 Committed]\<rparr>"
    using chat_endpoint_Inr [OF ok] by (elim exE conjE)
  have hist: "chat_history st1 = deque_append (chat_history st) (message req1, reply)"
    unfolding st1 [symmetric] st' by simp
  have bot: "map_of resp ''bot_response'' = Some (Text reply)"
    unfolding resp by simp
  obtain pre where
    "generate_sql env2 (chat_history st1) (message req2) =
       (case generate_content env2
               (SCHEMA_PROMPT @ ''\<newline>Conversation so far:\<newline>'' @ pre
                  @ ''User: '' @ message req1 @ ''\<newline>Bot: '' @ reply
                  @ ''\<newline>\<newline>User: '' @ message req2 @ ''\<newline>SQL:'') of
          Inl e \<Rightarrow> Inl e
        | Inr response_text \<Rightarrow>
            Inr (py_strip_chars (py_strip_chars (py_strip response_text) ''```sql'') ''```''))"
    using prompt_after_turn [OF hist, of env2 "message req2"] by (elim exE)
  with bot show ?thesis
    by (intro exI [of _ reply] exI [of _ pre] conjI)
qed

text \<open>
  Claim C9.  When the chat-log insert or the commit raises, the turn has already been appended
  to the deque and stays there, no commit of a chat-log row has been recorded for it, and
  the prompt of a following request contains that turn.
\<close>

theorem failed_logging_keeps_turn:
  assumes "generate_sql env (chat_history st) (message req) = Inr sql_query"
    and "format_response env (chat_history st) (run_query env sql_query) (message req)
         = Inr response_text"
    and "execute_insert env (user_id req, message req, response_text, now env) = Some e \<or>
         (execute_insert env (user_id req, message req, response_text, now env) = None \<and>
          commit env = Some e)"
  shows "chat_history (snd (chat_endpoint env req st))
           = deque_append (chat_history st) (message req, response_text) \<and>
         (db_log (snd (chat_endpoint env req st)) = db_log st \<or>
          db_log (snd (chat_endpoint env req st))
            = db_log st @ [Inserted (user_id req, message req, response_text, now env)]) \<and>
         (\<exists>pre. generate_sql env2 (chat_history (snd (chat_endpoint env req st))) next_input =
            (case generate_content env2
                    (SCHEMA_PROMPT @ ''\<newline>Conversation so far:\<newline>'' @ pre
                       @ ''User: '' @ message req @ ''\<newline>Bot: '' @ response_text
                       @ ''\<newline>\<newline>User: '' @ next_input @ ''\<newline>SQL:'') of
               Inl e \<Rightarrow> Inl e
             | Inr t \<Rightarrow> Inr (py_strip_chars (py_strip_chars (py_strip t) ''```sql'') ''```'')))"
proof -
  let ?st' = "snd (chat_endpoint env req st)"
  let ?row = "(user_id req, message req, response_text, now env)"
  note eq = chat_endpoint_logging_raises [OF assms]
  have hist: "chat_history ?st' = deque_append (chat_history st) (message req, response_text)"
    by (simp add: eq)
  have log: "db_log ?st' = db_log st \<or> db_log ?st' = db_log st @ [Inserted ?row]"
    by (cases "execute_insert env ?row") (simp_all add: eq)
  from hist log prompt_after_turn [OF hist, of env2 next_input] show ?thesis
    by (intro conjI)
qed

text \<open>
  Claim C10.  Two requests with the same message, from the same state and with the same
  collaborator answers (the insert answering alike for both user ids), that differ only in
  \<open>user_id\<close>, have the same outcome and leave the same deque; their chat-log writes agree
  except for the user id.
\<close>

theorem user_id_only_in_chatlog:
  assumes "\<forall>m r t. execute_insert env (u1, m, r, t) = execute_insert env (u2, m, r, t)"
  shows "fst (chat_endpoint env \<lparr>user_id = u1, message = msg\<rparr> st)
           = fst (chat_endpoint env \<lparr>user_id = u2, message = msg\<rparr> st) \<and>
         chat_history (snd (chat_endpoint env \<lparr>user_id = u1, message = msg\<rparr> st))
           = chat_history (snd (chat_endpoint env \<lparr>user_id = u2, message = msg\<rparr> st)) \<and>
         map drop_user (db_log (snd (chat_endpoint env \<lparr>user_id = u1, message = msg\<rparr> st)))
           = map drop_user (db_log (snd (chat_endpoint env \<lparr>user_id = u2, message = msg\<rparr> st)))"
proof (cases "generate_sql env (chat_history st) msg")
  case (Inl e)
  then show ?thesis by (simp add: chat_endpoint_def)
next
  case sql: (Inr sql_query)
  show ?thesis
  proof (cases "format_response env (chat_history st) (run_query env sql_query) msg")
    case (Inl e)
    with sql show ?thesis by (simp add: chat_endpoint_def Let_def)
  next
    case (Inr reply)
    have ins: "execute_insert env (u1, msg, reply, now env)
               = execute_insert env (u2, msg, reply, now env)"
      using assms by blast
    show ?thesis
      using sql Inr ins
      by (simp add: chat_endpoint_def save_chat_def Let_def split: option.splits)
  qed
qed

section \<open>Worked examples\<close>

text \<open>
  One request \<open>hi\<close> served from the initial state, the model answering \<open>SELECT 1;\<close> and
  \<open>Hello!\<close>, under each outcome of the query, the insert and the commit.
\<close>

lemma example_chat_endpoint:
  "chat_endpoint (example_collab ''SELECT 1;'' ''Hello!'' rows ins com)
     \<lparr>user_id = uid, message = ''hi''\<rparr> initial_state =
   (case save_chat (example_collab ''SELECT 1;'' ''Hello!'' rows ins com)
           (uid, ''hi'', ''Hello!'', 0)
           \<lparr>chat_history = [(''hi'', ''Hello!'')], db_log = []\<rparr> of
      (Some e, st2) \<Rightarrow> (Inl e, st2)
    | (None, st2) \<Rightarrow>
        (Inr [(''user_message'', Text ''hi''),
              (''sql_query'', Text ''SELECT 1;''),
              (''results'',
               Results (run_query (example_collab ''SELECT 1;'' ''Hello!'' rows ins com) ''SELECT 1;'')),
              (''bot_response'', Text ''Hello!'')], st2))"
proof -
  let ?env = "example_collab ''SELECT 1;'' ''Hello!'' rows ins com"
  let ?req = "\<lparr>user_id = uid, message = ''hi''\<rparr>"
  have gen: "generate_sql ?env (chat_history initial_state) (message ?req) = Inr ''SELECT 1;''"
    by (simp add: example_sql_reply py_strip_def py_strip_chars_def isspace_def)
  have fmt: "format_response ?env (chat_history initial_state) (run_query ?env ''SELECT 1;'')
               (message ?req) = Inr ''Hello!''"
    by (simp add: example_bot_reply py_strip_def isspace_def)
  have now: "now ?env = 0"
    by (simp add: example_collab_def)
  show ?thesis
    using chat_endpoint_formatted [OF gen fmt]
    by (simp add: now initial_state_def deque_append_def maxlen_def split: prod.splits option.splits)
qed

lemma example_chat_returns:
  "chat_endpoint (example_collab ''SELECT 1;'' ''Hello!'' (Inr []) None None)
     \<lparr>user_id = uid, message = ''hi''\<rparr> initial_state =
   (Inr [(''user_message'', Text ''hi''),
         (''sql_query'', Text ''SELECT 1;''),
         (''results'', Results (Rows [])),
         (''bot_response'', Text ''Hello!'')],
    \<lparr>chat_history = [(''hi'', ''Hello!'')],
     db_log = [Inserted (uid, ''hi'', ''Hello!'', 0), Committed]\<rparr>)"
  unfolding example_chat_endpoint
  by (simp add: save_chat_def run_query_def example_collab_def)


lemma example_gen:
  "generate_sql (example_collab ''SELECT 1;'' ''Hello!'' rows ins com)
     (chat_history initial_state) (message \<lparr>user_id = uid, message = ''hi''\<rparr>) = Inr ''SELECT 1;''"
  by (simp add: example_sql_reply py_strip_def py_strip_chars_def isspace_def)

lemma example_fmt:
  "format_response (example_collab ''SELECT 1;'' ''Hello!'' rows ins com)
     (chat_history initial_state)
     (run_query (example_collab ''SELECT 1;'' ''Hello!'' rows ins com) ''SELECT 1;'')
     (message \<lparr>user_id = uid, message = ''hi''\<rparr>) = Inr ''Hello!''"
  by (simp add: example_bot_reply py_strip_def isspace_def)

theorem query_error_fed_forward_witness:
  "chat_endpoint
     (example_collab ''SELECT 1;'' ''Hello!'' (Inl (Exception ''Unknown column'')) None None)
     \<lparr>user_id = 7, message = ''hi''\<rparr> initial_state =
   (Inr [(''user_message'', Text ''hi''),
         (''sql_query'', Text ''SELECT 1;''),
         (''results'', Results (ErrorDict ''Unknown column'')),
         (''bot_response'', Text ''Hello!'')],
    \<lparr>chat_history = [(''hi'', ''Hello!'')],
     db_log = [Inserted (7, ''hi'', ''Hello!'', 0), Committed]\<rparr>)"
proof -
  let ?env = "example_collab ''SELECT 1;'' ''Hello!'' (Inl (Exception ''Unknown column'')) None None"
  have err: "execute_fetchall ?env ''SELECT 1;'' = Inl (Exception ''Unknown column'')"
    by (simp add: example_collab_def)
  have fmt: "format_response ?env h r u = Inr ''Hello!''" for h r u
    by (simp add: example_bot_reply py_strip_def isspace_def)
  have sav: "save_chat ?env row st = (None, st\<lparr>db_log := db_log st @ [Inserted row, Committed]\<rparr>)"
    for row st
    by (simp add: save_chat_def example_collab_def)
  have now: "now ?env = 0"
    by (simp add: example_collab_def)
  from query_error_fed_forward [OF example_gen err, of 7]
  show ?thesis
    by (simp add: fmt sav now initial_state_def deque_append_def maxlen_def)
qed

theorem chat_response_fields_witness:
  "map fst [(''user_message'', Text ''hi''),
            (''sql_query'', Text ''SELECT 1;''),
            (''results'', Results (Rows ([] :: unit list))),
            (''bot_response'', Text ''Hello!'')]
     = [''user_message'', ''sql_query'', ''results'', ''bot_response''] \<and>
   fst (post_chat (example_collab ''SELECT 1;'' ''Hello!'' (Inr []) None None)
          (ChatRequest None ''hi'') initial_state)
     = Http 200 (Some [(''user_message'', Text ''hi''),
                       (''sql_query'', Text ''SELECT 1;''),
                       (''results'', Results (Rows [])),
                       (''bot_response'', Text ''Hello!'')]) \<and>
   user_id (ChatRequest None ''hi'') = 1"
proof -
  let ?env = "example_collab ''SELECT 1;'' ''Hello!'' (Inr []) None None"
  have req: "ChatRequest None ''hi'' = \<lparr>user_id = 1, message = ''hi''\<rparr>"
    by (simp add: ChatRequest_def)
  have run: "fst (chat_endpoint ?env (ChatRequest None ''hi'') initial_state)
             = Inr [(''user_message'', Text ''hi''),
                    (''sql_query'', Text ''SELECT 1;''),
                    (''results'', Results (Rows [])),
                    (''bot_response'', Text ''Hello!'')]"
    by (simp only: req example_chat_returns fst_conv)
  from chat_response_fields [OF run, of "''hi''" 1] show ?thesis
    by (intro conjI) (elim conjE, assumption)+
qed

theorem second_prompt_contains_first_turn_witness:
  "\<exists>reply pre.
     map_of [(''user_message'', Text ''hi''),
             (''sql_query'', Text ''SELECT 1;''),
             (''results'', Results (Rows ([] :: unit list))),
             (''bot_response'', Text ''Hello!'')] ''bot_response'' = Some (Text reply) \<and>
     generate_sql (example_collab ''SELECT 2;'' ''Bye!'' (Inr []) None None)
         (chat_history \<lparr>chat_history = [(''hi'', ''Hello!'')],
                        db_log = [Inserted (1, ''hi'', ''Hello!'', 0), Committed]\<rparr>)
         (message \<lparr>user_id = 1, message = ''and then?''\<rparr>) =
       (case generate_content (example_collab ''SELECT 2;'' ''Bye!'' (Inr []) None None)
               (SCHEMA_PROMPT @ ''\<newline>Conversation so far:\<newline>'' @ pre
                  @ ''User: '' @ message \<lparr>user_id = 1, message = ''hi''\<rparr> @ ''\<newline>Bot: '' @ reply
                  @ ''\<newline>\<newline>User: '' @ message \<lparr>user_id = 1, message = ''and then?''\<rparr>
                  @ ''\<newline>SQL:'') of
          Inl e \<Rightarrow> Inl e
        | Inr response_text \<Rightarrow>
            Inr (py_strip_chars (py_strip_chars (py_strip response_text) ''```sql'') ''```''))"
  by (rule second_prompt_contains_first_turn [OF example_chat_returns])


lemma example_insert_raises:
  "execute_insert (example_collab ''SELECT 1;'' ''Hello!'' rows (Some e) com)
     (user_id \<lparr>user_id = uid, message = ''hi''\<rparr>, message \<lparr>user_id = uid, message = ''hi''\<rparr>,
      ''Hello!'', now (example_collab ''SELECT 1;'' ''Hello!'' rows (Some e) com)) = Some e \<or>
   (execute_insert (example_collab ''SELECT 1;'' ''Hello!'' rows (Some e) com)
     (user_id \<lparr>user_id = uid, message = ''hi''\<rparr>, message \<lparr>user_id = uid, message = ''hi''\<rparr>,
      ''Hello!'', now (example_collab ''SELECT 1;'' ''Hello!'' rows (Some e) com)) = None \<and>
    commit (example_collab ''SELECT 1;'' ''Hello!'' rows (Some e) com) = Some e)"
  by (simp add: example_collab_def)

lemma example_commit_raises:
  "execute_insert (example_collab ''SELECT 1;'' ''Hello!'' rows None (Some e))
     (user_id \<lparr>user_id = uid, message = ''hi''\<rparr>, message \<lparr>user_id = uid, message = ''hi''\<rparr>,
      ''Hello!'', now (example_collab ''SELECT 1;'' ''Hello!'' rows None (Some e))) = Some e \<or>
   (execute_insert (example_collab ''SELECT 1;'' ''Hello!'' rows None (Some e))
     (user_id \<lparr>user_id = uid, message = ''hi''\<rparr>, message \<lparr>user_id = uid, message = ''hi''\<rparr>,
      ''Hello!'', now (example_collab ''SELECT 1;'' ''Hello!'' rows None (Some e))) = None \<and>
    commit (example_collab ''SELECT 1;'' ''Hello!'' rows None (Some e)) = Some e)"
  by (simp add: example_collab_def)

theorem logging_error_propagates_witness:
  "fst (chat_endpoint
          (example_collab ''SELECT 1;'' ''Hello!'' (Inr []) (Some (Exception ''Duplicate entry'')) None)
          \<lparr>user_id = 7, message = ''hi''\<rparr> initial_state) = Inl (Exception ''Duplicate entry'') \<and>
   fst (post_chat
          (example_collab ''SELECT 1;'' ''Hello!'' (Inr []) (Some (Exception ''Duplicate entry'')) None)
          \<lparr>user_id = 7, message = ''hi''\<rparr> initial_state) = Http 500 None \<and>
   snd (chat_endpoint
          (example_collab ''SELECT 1;'' ''Hello!'' (Inr []) (Some (Exception ''Duplicate entry'')) None)
          \<lparr>user_id = 7, message = ''hi''\<rparr> initial_state)
     = \<lparr>chat_history = [(''hi'', ''Hello!'')], db_log = []\<rparr> \<and>
   fst (chat_endpoint
          (example_collab ''SELECT 1;'' ''Hello!'' (Inr []) None (Some (Exception ''Lost connection'')))
          \<lparr>user_id = 7, message = ''hi''\<rparr> initial_state) = Inl (Exception ''Lost connection'') \<and>
   snd (chat_endpoint
          (example_collab ''SELECT 1;'' ''Hello!'' (Inr []) None (Some (Exception ''Lost connection'')))
          \<lparr>user_id = 7, message = ''hi''\<rparr> initial_state)
     = \<lparr>chat_history = [(''hi'', ''Hello!'')], db_log = [Inserted (7, ''hi'', ''Hello!'', 0)]\<rparr>"
proof -
  note ins = logging_error_propagates [OF example_gen example_fmt example_insert_raises,
      of "Inr []" "Exception ''Duplicate entry''" None 7]
  note com = logging_error_propagates [OF example_gen example_fmt example_commit_raises,
      of "Inr []" "Exception ''Lost connection''" 7]
  have a: "snd (chat_endpoint
          (example_collab ''SELECT 1;'' ''Hello!'' (Inr []) (Some (Exception ''Duplicate entry'')) None)
          \<lparr>user_id = 7, message = ''hi''\<rparr> initial_state)
     = \<lparr>chat_history = [(''hi'', ''Hello!'')], db_log = []\<rparr>"
    using ins by (simp add: example_collab_def initial_state_def deque_append_def maxlen_def)
  have b: "snd (chat_endpoint
          (example_collab ''SELECT 1;'' ''Hello!'' (Inr []) None (Some (Exception ''Lost connection'')))
          \<lparr>user_id = 7, message = ''hi''\<rparr> initial_state)
     = \<lparr>chat_history = [(''hi'', ''Hello!'')], db_log = [Inserted (7, ''hi'', ''Hello!'', 0)]\<rparr>"
    using com by (simp add: example_collab_def initial_state_def deque_append_def maxlen_def)
  from ins com a b show ?thesis by (intro conjI) (elim conjE, assumption)+
qed

theorem failed_logging_keeps_turn_witness:
  "chat_history
     (snd (chat_endpoint
             (example_collab ''SELECT 1;'' ''Hello!'' (Inr []) None (Some (Exception ''Lost connection'')))
             \<lparr>user_id = 7, message = ''hi''\<rparr> initial_state))
     = [(''hi'', ''Hello!'')] \<and>
   Committed \<notin> set (db_log
     (snd (chat_endpoint
             (example_collab ''SELECT 1;'' ''Hello!'' (Inr []) None (Some (Exception ''Lost connection'')))
             \<lparr>user_id = 7, message = ''hi''\<rparr> initial_state))) \<and>
   (\<exists>pre. generate_sql (example_collab ''SELECT 2;'' ''Bye!'' (Inr []) None None)
        (chat_history
          (snd (chat_endpoint
             (example_collab ''SELECT 1;'' ''Hello!'' (Inr []) None (Some (Exception ''Lost connection'')))
             \<lparr>user_id = 7, message = ''hi''\<rparr> initial_state)))
        ''and then?'' =
      (case generate_content (example_collab ''SELECT 2;'' ''Bye!'' (Inr []) None None)
              (SCHEMA_PROMPT @ ''\<newline>Conversation so far:\<newline>'' @ pre
                 @ ''User: '' @ message \<lparr>user_id = 7, message = ''hi''\<rparr> @ ''\<newline>Bot: '' @ ''Hello!''
                 @ ''\<newline>\<newline>User: '' @ ''and then?'' @ ''\<newline>SQL:'') of
         Inl e \<Rightarrow> Inl e
       | Inr t \<Rightarrow> Inr (py_strip_chars (py_strip_chars (py_strip t) ''```sql'') ''```'')))"
proof -
  note inst = failed_logging_keeps_turn [OF example_gen example_fmt example_commit_raises,
      of "Inr []" "Exception ''Lost connection''" 7
         "example_collab ''SELECT 2;'' ''Bye!'' (Inr []) None None" "''and then?''"]
  from inst have hist: "chat_history
     (snd (chat_endpoint
             (example_collab ''SELECT 1;'' ''Hello!'' (Inr []) None (Some (Exception ''Lost connection'')))
             \<lparr>user_id = 7, message = ''hi''\<rparr> initial_state))
     = [(''hi'', ''Hello!'')]"
    by (simp add: initial_state_def deque_append_def maxlen_def)
  from inst [THEN conjunct2, THEN conjunct1] have log: "Committed \<notin> set (db_log
     (snd (chat_endpoint
             (example_collab ''SELECT 1;'' ''Hello!'' (Inr []) None (Some (Exception ''Lost connection'')))
             \<lparr>user_id = 7, message = ''hi''\<rparr> initial_state)))"
    by (auto simp: initial_state_def)
  from hist log inst [THEN conjunct2, THEN conjunct2] show ?thesis
    by (intro conjI)
qed

theorem user_id_only_in_chatlog_witness:
  "fst (chat_endpoint (example_collab ''SELECT 1;'' ''Hello!'' (Inr []) None None)
          \<lparr>user_id = 1, message = ''hi''\<rparr> initial_state)
     = fst (chat_endpoint (example_collab ''SELECT 1;'' ''Hello!'' (Inr []) None None)
              \<lparr>user_id = 2, message = ''hi''\<rparr> initial_state) \<and>
   chat_history (snd (chat_endpoint (example_collab ''SELECT 1;'' ''Hello!'' (Inr []) None None)
          \<lparr>user_id = 1, message = ''hi''\<rparr> initial_state))
     = chat_history (snd (chat_endpoint (example_collab ''SELECT 1;'' ''Hello!'' (Inr []) None None)
          \<lparr>user_id = 2, message = ''hi''\<rparr> initial_state)) \<and>
   map drop_user (db_log (snd (chat_endpoint (example_collab ''SELECT 1;'' ''Hello!'' (Inr []) None None)
          \<lparr>user_id = 1, message = ''hi''\<rparr> initial_state)))
     = map drop_user (db_log (snd (chat_endpoint (example_collab ''SELECT 1;'' ''Hello!'' (Inr []) None None)
          \<lparr>user_id = 2, message = ''hi''\<rparr> initial_state))) \<and>
   db_log (snd (chat_endpoint (example_collab ''SELECT 1;'' ''Hello!'' (Inr []) None None)
          \<lparr>user_id = 1, message = ''hi''\<rparr> initial_state))
     \<noteq> db_log (snd (chat_endpoint (example_collab ''SELECT 1;'' ''Hello!'' (Inr []) None None)
          \<lparr>user_id = 2, message = ''hi''\<rparr> initial_state))"
proof -
  have same: "\<forall>m r t. execute_insert (example_collab ''SELECT 1;'' ''Hello!'' (Inr []) None None) (1, m, r, t)
                = execute_insert (example_collab ''SELECT 1;'' ''Hello!'' (Inr []) None None) (2, m, r, t)"
    by (simp add: example_collab_def)
  have differ: "db_log (snd (chat_endpoint (example_collab ''SELECT 1;'' ''Hello!'' (Inr []) None None)
          \<lparr>user_id = 1, message = ''hi''\<rparr> initial_state))
     \<noteq> db_log (snd (chat_endpoint (example_collab ''SELECT 1;'' ''Hello!'' (Inr []) None None)
          \<lparr>user_id = 2, message = ''hi''\<rparr> initial_state))"
    by (simp add: example_chat_returns)
  from user_id_only_in_chatlog [OF same, of "''hi''" initial_state] differ show ?thesis
    by (intro conjI) (elim conjE, assumption)+
qed

end
